theory Spec2Isabelle
  imports Main "HOL-Library.Multiset"
begin

section \<open>Strings\<close>

text \<open>
  JavaScript strings are modelled as \<^typ>\<open>string\<close> (lists of characters); the model is
  meant for ASCII text, where a UTF-16 code unit and a \<^typ>\<open>char\<close> coincide.  The
  helpers below are the \<open>String.prototype\<close> methods that \<open>src/scan.ts\<close> calls.
\<close>

definition chr_slash :: char where
  "chr_slash = CHR 0x2F"

definition chr_backslash :: char where
  "chr_backslash = CHR 0x5C"

definition chr_dot :: char where
  "chr_dot = CHR 0x2E"

definition chr_apos :: char where
  "chr_apos = CHR 0x27"

definition chr_dquote :: char where
  "chr_dquote = CHR 0x22"

definition chr_backtick :: char where
  "chr_backtick = CHR 0x60"

definition chr_newline :: char where
  "chr_newline = CHR 0x0A"

text \<open>\<open>s.startsWith(p)\<close>.\<close>

definition startsWith :: "string \<Rightarrow> string \<Rightarrow> bool" where
  "startsWith s p = (take (length p) s = p)"

text \<open>
  \<open>s.replace(pat, rep)\<close> with a string pattern: only the first occurrence of \<open>pat\<close>
  is replaced (the empty pattern matches at position 0).  The replacement strings used in
  \<open>scan.ts\<close> hold no \<open>$\<close> pattern.
\<close>

fun replaceFirst :: "string \<Rightarrow> string \<Rightarrow> string \<Rightarrow> string" where
  "replaceFirst [] pat rep = (if pat = [] then rep else [])"
| "replaceFirst (c # cs) pat rep =
     (if startsWith (c # cs) pat then rep @ drop (length pat) (c # cs)
      else c # replaceFirst cs pat rep)"

text \<open>\<open>s.replace(/c/g, rep)\<close> for a one-character pattern: every occurrence is replaced.\<close>

definition replaceAllChar :: "string \<Rightarrow> char \<Rightarrow> string \<Rightarrow> string" where
  "replaceAllChar s c rep = concat (map (\<lambda>x. if x = c then rep else [x]) s)"

text \<open>\<open>s.replace(/s$/, '')\<close>: one trailing lower-case \<open>s\<close> is removed.\<close>

definition stripTrailingS :: "string \<Rightarrow> string" where
  "stripTrailingS s = (if s \<noteq> [] \<and> last s = CHR ''s'' then butlast s else s)"

text \<open>\<open>s.replace(/^\//, '')\<close>: one leading slash is removed.\<close>

definition stripLeadingSlash :: "string \<Rightarrow> string" where
  "stripLeadingSlash s = (case s of [] \<Rightarrow> [] | c # cs \<Rightarrow> if c = chr_slash then cs else s)"

text \<open>\<open>s.split(/[\\/]/)\<close>: the pieces between path separators of either kind.\<close>

fun splitSeps :: "string \<Rightarrow> string list" where
  "splitSeps [] = [[]]"
| "splitSeps (c # cs) =
     (if c = chr_slash \<or> c = chr_backslash then [] # splitSeps cs
      else (case splitSeps cs of [] \<Rightarrow> [[c]] | w # ws \<Rightarrow> (c # w) # ws))"

section \<open>lodash: \<open>camelCase\<close>, \<open>kebabCase\<close>, \<open>upperFirst\<close>\<close>

text \<open>
  The three lodash functions imported by \<open>scan.ts\<close>, on ASCII input.  lodash first deletes
  apostrophes, then cuts the string into words with its word pattern; on ASCII text the
  pattern's alternatives are, in order of preference at each position:
  an optional capital followed by lower-case letters; a run of capitals (giving up its last
  letter when lower-case letters follow); an English ordinal such as \<open>1st\<close> or \<open>4TH\<close>;
  a run of digits.  Every other ASCII character separates words.
\<close>

definition isLower :: "char \<Rightarrow> bool" where
  "isLower c = (97 \<le> (of_char c :: nat) \<and> (of_char c :: nat) \<le> 122)"

definition isUpper :: "char \<Rightarrow> bool" where
  "isUpper c = (65 \<le> (of_char c :: nat) \<and> (of_char c :: nat) \<le> 90)"

definition isDigit :: "char \<Rightarrow> bool" where
  "isDigit c = (48 \<le> (of_char c :: nat) \<and> (of_char c :: nat) \<le> 57)"

text \<open>\<open>toLowerCase\<close> and \<open>toUpperCase\<close> on one ASCII character.\<close>

definition toLower :: "char \<Rightarrow> char" where
  "toLower c = (if isUpper c then char_of (of_char c + (32 :: nat)) else c)"

definition toUpper :: "char \<Rightarrow> char" where
  "toUpper c = (if isLower c then char_of (of_char c - (32 :: nat)) else c)"

definition toLowerCase :: "string \<Rightarrow> string" where
  "toLowerCase s = map toLower s"

text \<open>
  The ordinal alternatives \<open>\d*(?:1ST|2ND|3RD|(?![123])\dTH)(?=\b|[a-z_])\<close> and its
  lower-case twin: \<open>ds\<close> is the run of digits, \<open>r\<close> what follows it.
\<close>

definition ordSuffix :: "char \<Rightarrow> string" where
  "ordSuffix d =
     (if d = CHR ''1'' then ''ST'' else if d = CHR ''2'' then ''ND''
      else if d = CHR ''3'' then ''RD'' else ''TH'')"

definition isOrdUpper :: "string \<Rightarrow> string \<Rightarrow> bool" where
  "isOrdUpper ds r =
     (take 2 r = ordSuffix (last ds) \<and>
      (case drop 2 r of [] \<Rightarrow> True | x # _ \<Rightarrow> \<not> isUpper x \<and> \<not> isDigit x))"

definition isOrdLower :: "string \<Rightarrow> string \<Rightarrow> bool" where
  "isOrdLower ds r =
     (take 2 r = toLowerCase (ordSuffix (last ds)) \<and>
      (case drop 2 r of [] \<Rightarrow> True | x # _ \<Rightarrow> \<not> isLower x \<and> \<not> isDigit x))"

text \<open>lodash's \<open>words\<close>: the list of words of an ASCII string.\<close>

function words :: "string \<Rightarrow> string list" where
  "words [] = []"
| "words (c # cs) =
     (if isLower c then
        (c # takeWhile isLower cs) # words (dropWhile isLower cs)
      else if isUpper c then
        (let us = takeWhile isUpper cs; r = dropWhile isUpper cs in
         if r \<noteq> [] \<and> isLower (hd r) then
           (if us = [] then (c # takeWhile isLower r) # words (dropWhile isLower r)
            else (c # butlast us) # words (last us # r))
         else (c # us) # words r)
      else if isDigit c then
        (let ds = c # takeWhile isDigit cs; r = dropWhile isDigit cs in
         if isOrdUpper ds r \<or> isOrdLower ds r then (ds @ take 2 r) # words (drop 2 r)
         else ds # words r)
      else words cs)"
  by pat_completeness auto
termination
proof (relation "measure length")
  show "wf (measure length)" by simp
next
  fix c :: char and cs us r :: string
  assume "us = takeWhile isUpper cs" "r = dropWhile isUpper cs" "us \<noteq> []"
  then have "length us + length r = length cs" and "0 < length us"
    by (simp_all flip: length_append)
  then have "length r < length cs" by linarith
  then show "(last us # r, c # cs) \<in> measure length" by simp
next
  fix c :: char and cs ds r :: string
  assume "r = dropWhile isDigit cs"
  then have "length r \<le> length cs" by (simp add: length_dropWhile_le)
  then have "length r - 2 < Suc (length cs)" by linarith
  then show "(drop 2 r, c # cs) \<in> measure length" by simp
qed (auto intro: le_imp_less_Suc length_dropWhile_le order_trans [OF _ length_dropWhile_le])

text \<open>\<open>upperFirst\<close>: the first character in upper case.\<close>

definition upperFirst :: "string \<Rightarrow> string" where
  "upperFirst s = (case s of [] \<Rightarrow> [] | c # cs \<Rightarrow> toUpper c # cs)"

text \<open>\<open>capitalize(word) = upperFirst(word.toLowerCase())\<close>.\<close>

definition capitalize :: "string \<Rightarrow> string" where
  "capitalize w = upperFirst (toLowerCase w)"

text \<open>The words a compounder folds over: apostrophes are deleted first.\<close>

definition compoundWords :: "string \<Rightarrow> string list" where
  "compoundWords s = words (filter (\<lambda>c. c \<noteq> chr_apos) s)"

text \<open>
  \<open>camelCase\<close>: every word in lower case, all but the first capitalised, concatenated
  (the reduction's callback receives the index of the word).
\<close>

fun camelJoin :: "string \<Rightarrow> nat \<Rightarrow> string list \<Rightarrow> string" where
  "camelJoin result index [] = result"
| "camelJoin result index (w # ws) =
     camelJoin (result @ (if index \<noteq> 0 then capitalize (toLowerCase w) else toLowerCase w))
       (Suc index) ws"

definition camelCase :: "string \<Rightarrow> string" where
  "camelCase s = camelJoin [] 0 (compoundWords s)"

text \<open>\<open>kebabCase\<close>: the words in lower case, joined by \<open>-\<close>.\<close>

fun kebabJoin :: "string \<Rightarrow> nat \<Rightarrow> string list \<Rightarrow> string" where
  "kebabJoin result index [] = result"
| "kebabJoin result index (w # ws) =
     kebabJoin (result @ (if index \<noteq> 0 then ''-'' else []) @ toLowerCase w) (Suc index) ws"

definition kebabCase :: "string \<Rightarrow> string" where
  "kebabCase s = kebabJoin [] 0 (compoundWords s)"

text \<open>\<open>const pascalCase = (str) => upperFirst(camelCase(str))\<close>\<close>

definition pascalCase :: "string \<Rightarrow> string" where
  "pascalCase str = upperFirst (camelCase str)"

section \<open>Node's \<open>path\<close> module\<close>

text \<open>
  \<open>scan.ts\<close> imports \<open>basename\<close>, \<open>extname\<close>, \<open>join\<close>, \<open>dirname\<close>, \<open>relative\<close> and \<open>sep\<close>
  from \<open>path\<close>, and reads \<open>process.platform\<close>.  Node binds these to its POSIX or its
  Windows implementation when the process starts, so the scanner takes them as a
  parameter: a \<open>platform\<close> record.  \<open>basename\<close> takes the path and the extension to strip
  (empty when the call passes none).
\<close>

record platform =
  isWindows :: bool
  sep :: string
  join :: "string \<Rightarrow> string \<Rightarrow> string"
  basename :: "string \<Rightarrow> string \<Rightarrow> string"
  extname :: "string \<Rightarrow> string"
  dirname :: "string \<Rightarrow> string"
  relative :: "string \<Rightarrow> string \<Rightarrow> string"

subsection \<open>The POSIX implementation\<close>

fun splitSlash :: "string \<Rightarrow> string list" where
  "splitSlash [] = [[]]"
| "splitSlash (c # cs) =
     (if c = chr_slash then [] # splitSlash cs
      else (case splitSlash cs of [] \<Rightarrow> [[c]] | w # ws \<Rightarrow> (c # w) # ws))"

fun joinSlash :: "string list \<Rightarrow> string" where
  "joinSlash [] = []"
| "joinSlash [w] = w"
| "joinSlash (w # ws) = w @ [chr_slash] @ joinSlash ws"

text \<open>
  \<open>normalizeString\<close>: empty and \<open>.\<close> segments are dropped, \<open>..\<close> removes the segment before
  it, or is kept when there is none to remove and the path is relative.  \<open>res\<close> is the
  result so far, last segment first.
\<close>

fun normalizeSegs :: "bool \<Rightarrow> string list \<Rightarrow> string list \<Rightarrow> string list" where
  "normalizeSegs allowAboveRoot res [] = rev res"
| "normalizeSegs allowAboveRoot res (s # ss) =
     (if s = [] \<or> s = ''.'' then normalizeSegs allowAboveRoot res ss
      else if s = ''..'' then
        (if res \<noteq> [] \<and> hd res \<noteq> ''..'' then normalizeSegs allowAboveRoot (tl res) ss
         else if allowAboveRoot then normalizeSegs allowAboveRoot (''..'' # res) ss
         else normalizeSegs allowAboveRoot res ss)
      else normalizeSegs allowAboveRoot (s # res) ss)"

definition posix_normalize :: "string \<Rightarrow> string" where
  "posix_normalize p =
     (if p = [] then ''.''
      else
        (let isAbsolute = (hd p = chr_slash);
             trailingSeparator = (last p = chr_slash);
             q = joinSlash (normalizeSegs (\<not> isAbsolute) [] (splitSlash p))
         in if q = [] then (if isAbsolute then ''/'' else if trailingSeparator then ''./'' else ''.'')
            else (if isAbsolute then ''/'' else []) @ q @ (if trailingSeparator then ''/'' else [])))"

definition posix_join :: "string \<Rightarrow> string \<Rightarrow> string" where
  "posix_join a b =
     (let parts = filter (\<lambda>x. x \<noteq> []) [a, b]
      in if parts = [] then ''.'' else posix_normalize (joinSlash parts))"

text \<open>The last path segment, trailing slashes ignored.\<close>

definition lastSegment :: "string \<Rightarrow> string" where
  "lastSegment p =
     rev (takeWhile (\<lambda>c. c \<noteq> chr_slash) (dropWhile (\<lambda>c. c = chr_slash) (rev p)))"

definition posix_basename :: "string \<Rightarrow> string \<Rightarrow> string" where
  "posix_basename p ext =
     (let seg = lastSegment p in
      if ext \<noteq> [] \<and> length ext \<le> length p then
        (if ext = p then []
         else if length ext < length seg \<and> drop (length seg - length ext) seg = ext
           then take (length seg - length ext) seg
         else seg)
      else seg)"

text \<open>
  \<open>extname\<close>: from the last dot of the last segment on; empty when the segment has no dot,
  starts with its only dot, or is \<open>..\<close>.
\<close>

definition posix_extname :: "string \<Rightarrow> string" where
  "posix_extname p =
     (let seg = lastSegment p;
          afterDot = takeWhile (\<lambda>c. c \<noteq> chr_dot) (rev seg)
      in if chr_dot \<notin> set seg \<or> length afterDot + 1 = length seg \<or> seg = ''..'' then []
         else drop (length seg - length afterDot - 1) seg)"

definition posix_dirname :: "string \<Rightarrow> string" where
  "posix_dirname p =
     (if p = [] then ''.''
      else
        (let hasRoot = (hd p = chr_slash);
             t = rev (dropWhile (\<lambda>c. c = chr_slash) (rev (tl p)));
             e = length (dropWhile (\<lambda>c. c \<noteq> chr_slash) (rev t))
         in if e = 0 then (if hasRoot then ''/'' else ''.'')
            else if hasRoot \<and> e = 1 then ''//''
            else take e p))"

text \<open>\<open>resolve\<close>, as the segments of the absolute path; \<open>cwd\<close> is the working directory.\<close>

definition resolveSegs :: "string \<Rightarrow> string \<Rightarrow> string list" where
  "resolveSegs cwd p =
     normalizeSegs False []
       (splitSlash (if p \<noteq> [] \<and> hd p = chr_slash then p else cwd @ ''/'' @ p))"

fun commonPrefixLength :: "string list \<Rightarrow> string list \<Rightarrow> nat" where
  "commonPrefixLength (x # xs) (y # ys) = (if x = y then Suc (commonPrefixLength xs ys) else 0)"
| "commonPrefixLength _ _ = 0"

definition posix_relative :: "string \<Rightarrow> string \<Rightarrow> string \<Rightarrow> string" where
  "posix_relative cwd from to =
     (if from = to then []
      else
        (let f = resolveSegs cwd from; t = resolveSegs cwd to; n = commonPrefixLength f t
         in joinSlash (replicate (length f - n) ''..'' @ drop n t)))"

definition posix :: "string \<Rightarrow> platform" where
  "posix cwd =
     \<lparr> isWindows = False, sep = ''/'', join = posix_join, basename = posix_basename,
       extname = posix_extname, dirname = posix_dirname, relative = posix_relative cwd \<rparr>"

section \<open>The scanner: \<open>src/scan.ts\<close>\<close>

subsection \<open>Data\<close>

text \<open>\<open>interface Component\<close>; the optional \<open>async\<close> is \<open>None\<close> when absent.\<close>

record Component =
  pascalName :: string
  kebabName :: string
  "import" :: string
  asyncImport :: string
  export :: string
  filePath :: string
  shortPath :: string
  async :: "bool option"
  chunkName :: string
  global :: bool

text \<open>
  \<open>interface ScanDir\<close>.  \<open>pattern\<close> is a string or an array of strings; \<open>global\<close> is a
  boolean or \<open>'dev'\<close>; optional fields are \<open>None\<close> when absent.  \<open>extendComponent\<close> may
  answer a Component or nothing (\<open>None\<close>); a hook that throws ends the run without a
  result, so hooks are the functions that answer.
\<close>

datatype GlobPattern = Single string | Many "string list"

datatype GlobalFlag = Flag bool | Dev

record ScanDir =
  path :: string
  pattern :: "GlobPattern option"
  ignore :: "string list option"
  prefix :: "string option"
  global :: "GlobalFlag option"
  extendComponent :: "(Component \<Rightarrow> Component option) option"

text \<open>
  \<open>globby(pattern, { cwd, ignore })\<close>: the file system at the time of the run, as the
  function from the pattern, the directory and the ignore list to the relative paths found.
\<close>

type_synonym Globby = "GlobPattern option \<Rightarrow> string \<Rightarrow> string list \<Rightarrow> string list"

definition LAZY_PREFIX :: string where
  "LAZY_PREFIX = ''lazy''"

subsection \<open>\<open>sortDirsByPathLength\<close> and \<open>Array.prototype.sort\<close>\<close>

text \<open>\<open>path.split(/[\\/]/).filter(Boolean).length\<close>\<close>

definition pathDepth :: "string \<Rightarrow> nat" where
  "pathDepth p = length (filter (\<lambda>w. w \<noteq> []) (splitSeps p))"

definition sortDirsByPathLength :: "ScanDir \<Rightarrow> ScanDir \<Rightarrow> int" where
  "sortDirsByPathLength a b = int (pathDepth (ScanDir.path b)) - int (pathDepth (ScanDir.path a))"

text \<open>
  \<open>array.sort(compare)\<close> sorts the array in place and returns it; the sort is stable.
  \<open>arraySort\<close> gives the contents of the array after the call.
\<close>

fun insertBy :: "('a \<Rightarrow> 'a \<Rightarrow> int) \<Rightarrow> 'a \<Rightarrow> 'a list \<Rightarrow> 'a list" where
  "insertBy compare x [] = [x]"
| "insertBy compare x (y # ys) =
     (if compare x y \<le> 0 then x # y # ys else y # insertBy compare x ys)"

definition arraySort :: "('a \<Rightarrow> 'a \<Rightarrow> int) \<Rightarrow> 'a list \<Rightarrow> 'a list" where
  "arraySort compare xs = foldr (insertBy compare) xs []"

subsection \<open>\<open>prefixComponent\<close>\<close>

text \<open>The parameter \<open>prefix\<close> defaults to the empty string when it is \<open>undefined\<close>.\<close>

definition prefixComponent :: "string option \<Rightarrow> Component \<Rightarrow> Component" where
  "prefixComponent pfx c =
     (let prefix = (case pfx of None \<Rightarrow> [] | Some p \<Rightarrow> p) in
      c \<lparr> pascalName :=
            (if startsWith (pascalName c) prefix then pascalName c
             else pascalCase prefix @ pascalName c),
          kebabName :=
            (if startsWith (kebabName c) prefix then kebabName c
             else kebabCase prefix @ ''-'' @ kebabName c) \<rparr>)"

subsection \<open>\<open>scanComponents\<close>\<close>

text \<open>
  The state of one run: the \<open>components\<close> array, the \<open>filePaths\<close> set, the \<open>scannedPaths\<close>
  array, and the lines written with \<open>console.warn\<close>.
\<close>

record ScanState =
  components :: "Component list"
  filePaths :: "string set"
  scannedPaths :: "string list"
  warnings :: "string list"

text \<open>
  \<open>resolvedNames\<close>, created anew for every ScanDir: a \<open>Map\<close> from component name to file
  path, as the list of its entries in insertion order.
\<close>

type_synonym ResolvedNames = "(string \<times> string) list"

text \<open>
  \<open>if (scannedPaths.find(d => filePath.startsWith(d)))\<close>: \<open>find\<close> answers the first such
  \<open>d\<close>, and the \<open>if\<close> takes it as true unless it is the empty string.
\<close>

definition inScannedPath :: "string list \<Rightarrow> string \<Rightarrow> bool" where
  "inScannedPath paths fp =
     (case find (\<lambda>d. startsWith fp d) paths of None \<Rightarrow> False | Some d \<Rightarrow> d \<noteq> [])"

text \<open>
  Lines 62 to 70: the component name of the file \<open>fp\<close> (\<open>filePath\<close>) found under the
  directory \<open>root\<close> (the \<open>path\<close> of its ScanDir).
\<close>

definition resolveComponentName :: "platform \<Rightarrow> string \<Rightarrow> string \<Rightarrow> string" where
  "resolveComponentName P root fp =
     (let componentName = pascalCase (basename P fp (extname P fp));
          parentDirName = pascalCase (basename P (dirname P fp) []);
          pathPrefix = pascalCase (relative P root (dirname P fp))
      in if componentName \<in> set [''Index'', parentDirName] then pathPrefix
         else if \<not> startsWith componentName (stripTrailingS pathPrefix)
           then pathPrefix @ sep P @ componentName
         else componentName)"

text \<open>The text of the warning of lines 74 to 77.\<close>

definition collisionWarning :: "string \<Rightarrow> string \<Rightarrow> string \<Rightarrow> string" where
  "collisionWarning componentName fp other =
     ''Two component files resolving to the same name '' @ [chr_backtick] @ componentName
       @ [chr_backtick] @ '':'' @ [chr_newline]
       @ [chr_newline] @ '' - '' @ fp
       @ [chr_newline] @ '' - '' @ other"

text \<open>
  Lines 82 to 103: the Component of the file \<open>fp\<close>, with the directory's prefix applied.
\<close>

definition draftComponent :: "platform \<Rightarrow> string \<Rightarrow> ScanDir \<Rightarrow> string \<Rightarrow> string \<Rightarrow> Component" where
  "draftComponent P srcDir d componentName fp =
     (let pascalName = pascalCase componentName;
          kebabName = kebabCase componentName;
          shortPath = stripLeadingSlash
            (replaceAllChar (replaceFirst fp srcDir []) chr_backslash ''/'');
          chunkName = replaceFirst shortPath (extname P shortPath) [];
          filePath' = (if isWindows P
            then replaceAllChar fp chr_backslash [chr_backslash, chr_backslash]
            else fp);
          chunkName' = (if isWindows P then replaceFirst chunkName ''/'' ''_'' else chunkName)
      in prefixComponent (prefix d)
           \<lparr> pascalName = pascalName, kebabName = kebabName, import = [], asyncImport = [],
             export = ''default'', filePath = filePath', shortPath = shortPath, async = None,
             chunkName = chunkName',
             global = (case ScanDir.global d of None \<Rightarrow> False | Some (Flag b) \<Rightarrow> b
                       | Some Dev \<Rightarrow> True) \<rparr>)"

text \<open>Lines 105 to 107: \<open>_c = (await extendComponent(_c)) || _c\<close>.\<close>

definition applyExtendComponent :: "ScanDir \<Rightarrow> Component \<Rightarrow> Component" where
  "applyExtendComponent d c =
     (case extendComponent d of None \<Rightarrow> c
      | Some hook \<Rightarrow> (case hook c of None \<Rightarrow> c | Some c' \<Rightarrow> c'))"

text \<open>The default snippets of lines 109 and 110.\<close>

definition defaultImport :: "Component \<Rightarrow> string" where
  "defaultImport c =
     ''require('' @ [chr_apos] @ filePath c @ [chr_apos] @ '').'' @ export c"

definition defaultAsyncImport :: "Component \<Rightarrow> string" where
  "defaultAsyncImport c =
     ''function () { return import('' @ [chr_apos] @ filePath c @ [chr_apos]
       @ '' /* webpackChunkName: '' @ [chr_dquote] @ chunkName c @ [chr_dquote]
       @ '' */).then(function(m) { return m['' @ [chr_apos] @ export c @ [chr_apos]
       @ ''] || m }) }''"

text \<open>Lines 109 to 121: the two Components pushed for the Component \<open>_c\<close>.\<close>

definition emit :: "Component \<Rightarrow> Component list" where
  "emit c =
     (let import' = (if import c \<noteq> [] then import c else defaultImport c);
          asyncImport' = (if asyncImport c \<noteq> [] then asyncImport c else defaultAsyncImport c)
      in [ c \<lparr> import := import' \<rparr>,
           prefixComponent (Some LAZY_PREFIX) (c \<lparr> async := Some True, import := asyncImport' \<rparr>) ])"

text \<open>Lines 82 to 121 together: what an accepted file adds to \<open>components\<close>.\<close>

definition fileComponents :: "platform \<Rightarrow> string \<Rightarrow> ScanDir \<Rightarrow> string \<Rightarrow> string \<Rightarrow> Component list" where
  "fileComponents P srcDir d componentName fp =
     emit (applyExtendComponent d (draftComponent P srcDir d componentName fp))"

text \<open>The body of the inner loop, for the file \<open>file\<close> that \<open>globby\<close> found in \<open>d\<close>.\<close>

definition scanFile ::
  "platform \<Rightarrow> string \<Rightarrow> ScanDir \<Rightarrow> ScanState \<times> ResolvedNames \<Rightarrow> string \<Rightarrow> ScanState \<times> ResolvedNames"
where
  "scanFile P srcDir d sr file =
     (let st = fst sr; resolvedNames = snd sr;
          filePath = join P (ScanDir.path d) file
      in if inScannedPath (scannedPaths st) filePath then (st, resolvedNames)
         else if filePath \<in> filePaths st then (st, resolvedNames)
         else
           (let st1 = st \<lparr> filePaths := insert filePath (filePaths st) \<rparr>;
                componentName = resolveComponentName P (ScanDir.path d) filePath
            in case map_of resolvedNames componentName of
                 Some other \<Rightarrow>
                   (st1 \<lparr> warnings := warnings st1 @ [collisionWarning componentName filePath other] \<rparr>,
                    resolvedNames)
               | None \<Rightarrow>
                   (st1 \<lparr> components := components st1 @ fileComponents P srcDir d componentName filePath \<rparr>,
                    resolvedNames @ [(componentName, filePath)])))"

text \<open>The inner loop over the files of one ScanDir.\<close>

definition scanFiles ::
  "platform \<Rightarrow> string \<Rightarrow> ScanDir \<Rightarrow> ScanState \<times> ResolvedNames \<Rightarrow> string list \<Rightarrow> ScanState \<times> ResolvedNames"
where
  "scanFiles P srcDir d sr files = foldl (scanFile P srcDir d) sr files"

definition globFiles :: "Globby \<Rightarrow> ScanDir \<Rightarrow> string list" where
  "globFiles globby d =
     globby (pattern d) (ScanDir.path d) (case ignore d of None \<Rightarrow> [] | Some i \<Rightarrow> i)"

text \<open>The body of the outer loop: one ScanDir, then \<open>scannedPaths.push(path)\<close>.\<close>

definition scanDir :: "platform \<Rightarrow> Globby \<Rightarrow> string \<Rightarrow> ScanState \<Rightarrow> ScanDir \<Rightarrow> ScanState" where
  "scanDir P globby srcDir st d =
     (let st' = fst (scanFiles P srcDir d (st, []) (globFiles globby d))
      in st' \<lparr> scannedPaths := scannedPaths st' @ [ScanDir.path d] \<rparr>)"

definition scanDirs :: "platform \<Rightarrow> Globby \<Rightarrow> string \<Rightarrow> ScanState \<Rightarrow> ScanDir list \<Rightarrow> ScanState" where
  "scanDirs P globby srcDir st ds = foldl (scanDir P globby srcDir) st ds"

definition initialState :: ScanState where
  "initialState = \<lparr> components = [], filePaths = {}, scannedPaths = [], warnings = [] \<rparr>"

text \<open>
  What a call of \<open>scanComponents(dirs, srcDir)\<close> leaves behind: the array the promise
  resolves to, the caller's \<open>dirs\<close> array as the call leaves it (\<open>dirs.sort\<close> works in
  place), and the warnings written.
\<close>

record ScanOutcome =
  returned :: "Component list"
  dirsAfter :: "ScanDir list"
  warned :: "string list"

definition scanComponents :: "platform \<Rightarrow> Globby \<Rightarrow> ScanDir list \<Rightarrow> string \<Rightarrow> ScanOutcome" where
  "scanComponents P globby dirs srcDir =
     (let sorted = arraySort sortDirsByPathLength dirs;
          st = scanDirs P globby srcDir initialState sorted
      in \<lparr> returned = components st, dirsAfter = sorted, warned = warnings st \<rparr>)"

subsection \<open>\<open>matcher\<close>\<close>

definition matchTag :: "Component list \<Rightarrow> string \<Rightarrow> Component option" where
  "matchTag cs tag = find (\<lambda>c. tag \<in> set [pascalName c, kebabName c]) cs"

definition matcher :: "string list \<Rightarrow> Component list \<Rightarrow> Component list" where
  "matcher tags cs =
     foldl (\<lambda>matches tag.
              (case matchTag cs tag of None \<Rightarrow> matches | Some m \<Rightarrow> matches @ [m]))
       [] tags"

section \<open>Notions used in the statements\<close>

text \<open>
  A file path is claimed in a state when the two checks at the head of the inner loop
  (lines 54 to 58) would skip it.
\<close>

definition claimed :: "ScanState \<Rightarrow> string \<Rightarrow> bool" where
  "claimed st fp = (inScannedPath (scannedPaths st) fp \<or> fp \<in> filePaths st)"

section \<open>Example inputs\<close>

text \<open>A ScanDir with a path and a pattern and nothing else set.\<close>

definition plainDir :: "string \<Rightarrow> ScanDir" where
  "plainDir root =
     \<lparr> path = root, pattern = Some (Single ''**/*.vue''), ignore = None, prefix = None,
       global = None, extendComponent = None \<rparr>"

text \<open>The same with a prefix.\<close>

definition prefixedDir :: "string \<Rightarrow> string \<Rightarrow> ScanDir" where
  "prefixedDir root p = (plainDir root) \<lparr> prefix := Some p \<rparr>"

text \<open>A Component with the two names given and the other fields as a draft has them.\<close>

definition namedComponent :: "string \<Rightarrow> string \<Rightarrow> Component" where
  "namedComponent pn kn =
     \<lparr> pascalName = pn, kebabName = kn, import = [], asyncImport = [], export = ''default'',
       filePath = [], shortPath = [], async = None, chunkName = [], global = False \<rparr>"

text \<open>A file system in which every directory holds the files \<open>fs\<close>.\<close>

definition filesEverywhere :: "string list \<Rightarrow> Globby" where
  "filesEverywhere fs = (\<lambda>pat cwd ign. fs)"



text \<open>
  A file system with \<open>/src/a/bc/Y.vue\<close> and \<open>/src/a/bcd/X.vue\<close>: the path of the first
  directory is a prefix of the path of the second as a string.
\<close>

definition siblingFiles :: Globby where
  "siblingFiles =
     (\<lambda>pat cwd ign.
        if cwd = ''/src/a/bc'' then [''Y.vue'']
        else if cwd = ''/src/a/bcd'' then [''X.vue'']
        else if cwd = ''/src/a'' then [''bc/Y.vue'', ''bcd/X.vue'']
        else [])"



section \<open>Properties\<close>

subsection \<open>The loops, step by step\<close>

lemma scanFile_skip:
  "claimed st (join P (ScanDir.path d) f) \<Longrightarrow> scanFile P srcDir d (st, rn) f = (st, rn)"
  by (auto simp: scanFile_def claimed_def Let_def)

lemma scanFile_collision:
  assumes "\<not> claimed st (join P (ScanDir.path d) f)"
    and "map_of rn (resolveComponentName P (ScanDir.path d) (join P (ScanDir.path d) f)) = Some other"
  shows "scanFile P srcDir d (st, rn) f =
           (st \<lparr> filePaths := insert (join P (ScanDir.path d) f) (filePaths st),
                 warnings := warnings st @
                   [collisionWarning
                      (resolveComponentName P (ScanDir.path d) (join P (ScanDir.path d) f))
                      (join P (ScanDir.path d) f) other] \<rparr>, rn)"
  using assms by (simp add: scanFile_def claimed_def Let_def)

lemma scanFile_accept:
  assumes "\<not> claimed st (join P (ScanDir.path d) f)"
    and "map_of rn (resolveComponentName P (ScanDir.path d) (join P (ScanDir.path d) f)) = None"
  shows "scanFile P srcDir d (st, rn) f =
           (st \<lparr> filePaths := insert (join P (ScanDir.path d) f) (filePaths st),
                 components := components st @
                   fileComponents P srcDir d
                     (resolveComponentName P (ScanDir.path d) (join P (ScanDir.path d) f))
                     (join P (ScanDir.path d) f) \<rparr>,
            rn @ [(resolveComponentName P (ScanDir.path d) (join P (ScanDir.path d) f),
                   join P (ScanDir.path d) f)])"
  using assms by (simp add: scanFile_def claimed_def Let_def)

lemma scanFile_cases:
  obtains (skip) "claimed st (join P (ScanDir.path d) f)"
      "scanFile P srcDir d (st, rn) f = (st, rn)"
  | (collision) other where "\<not> claimed st (join P (ScanDir.path d) f)"
      "map_of rn (resolveComponentName P (ScanDir.path d) (join P (ScanDir.path d) f)) = Some other"
      "scanFile P srcDir d (st, rn) f =
           (st \<lparr> filePaths := insert (join P (ScanDir.path d) f) (filePaths st),
                 warnings := warnings st @
                   [collisionWarning
                      (resolveComponentName P (ScanDir.path d) (join P (ScanDir.path d) f))
                      (join P (ScanDir.path d) f) other] \<rparr>, rn)"
  | (accept) "\<not> claimed st (join P (ScanDir.path d) f)"
      "map_of rn (resolveComponentName P (ScanDir.path d) (join P (ScanDir.path d) f)) = None"
      "scanFile P srcDir d (st, rn) f =
           (st \<lparr> filePaths := insert (join P (ScanDir.path d) f) (filePaths st),
                 components := components st @
                   fileComponents P srcDir d
                     (resolveComponentName P (ScanDir.path d) (join P (ScanDir.path d) f))
                     (join P (ScanDir.path d) f) \<rparr>,
            rn @ [(resolveComponentName P (ScanDir.path d) (join P (ScanDir.path d) f),
                   join P (ScanDir.path d) f)])"
proof (cases "claimed st (join P (ScanDir.path d) f)")
  case True
  then show ?thesis using skip scanFile_skip by blast
next
  case False
  then show ?thesis
    using collision accept scanFile_collision [OF False] scanFile_accept [OF False]
    by (cases "map_of rn (resolveComponentName P (ScanDir.path d) (join P (ScanDir.path d) f))") blast+
qed

lemma scanFiles_Nil: "scanFiles P srcDir d sr [] = sr"
  by (simp add: scanFiles_def)

lemma scanFiles_Cons:
  "scanFiles P srcDir d sr (f # fs) = scanFiles P srcDir d (scanFile P srcDir d sr f) fs"
  by (simp add: scanFiles_def)


lemma scanDirs_Nil: "scanDirs P globby srcDir st [] = st"
  by (simp add: scanDirs_def)

lemma scanDirs_Cons:
  "scanDirs P globby srcDir st (d # ds) = scanDirs P globby srcDir (scanDir P globby srcDir st d) ds"
  by (simp add: scanDirs_def)













text \<open>The sorted array: the same ScanDirs, no shallower one before a deeper one.\<close>

lemma mset_insertBy: "mset (insertBy cmp x xs) = add_mset x (mset xs)"
  by (induction xs) auto

lemma mset_arraySort: "mset (arraySort cmp xs) = mset xs"
  by (induction xs) (auto simp: arraySort_def mset_insertBy)

lemma set_insertBy: "set (insertBy cmp x xs) = insert x (set xs)"
  by (induction xs) auto

lemma sorted_insertBy_depth:
  "sorted_wrt (\<lambda>a b. pathDepth (ScanDir.path b) \<le> pathDepth (ScanDir.path a)) xs \<Longrightarrow>
   sorted_wrt (\<lambda>a b. pathDepth (ScanDir.path b) \<le> pathDepth (ScanDir.path a))
     (insertBy sortDirsByPathLength x xs)"
  by (induction xs) (auto simp: set_insertBy sortDirsByPathLength_def)

lemma sorted_arraySort_depth:
  "sorted_wrt (\<lambda>a b. pathDepth (ScanDir.path b) \<le> pathDepth (ScanDir.path a))
     (arraySort sortDirsByPathLength xs)"
  by (induction xs) (auto simp: arraySort_def sorted_insertBy_depth)




subsection \<open>Casing, and the two Components of a file\<close>

text \<open>Casing of the strings the scanner itself supplies, and the two pushed Components.\<close>

lemma pascalCase_Nil: "pascalCase [] = []"
  by (simp add: pascalCase_def camelCase_def compoundWords_def upperFirst_def)

lemma kebabCase_Nil: "kebabCase [] = []"
  by (simp add: kebabCase_def compoundWords_def)

lemma pascalCase_index: "pascalCase ''index'' = ''Index''"
  by code_simp

lemma pascalCase_lazy: "pascalCase ''lazy'' = ''Lazy''"
  by code_simp

lemma kebabCase_lazy: "kebabCase ''lazy'' = ''lazy''"
  by code_simp

lemma emit_two:
  "emit c =
     [ c \<lparr> import := (if import c \<noteq> [] then import c else defaultImport c) \<rparr>,
       prefixComponent (Some ''lazy'')
         (c \<lparr> async := Some True,
              import := (if asyncImport c \<noteq> [] then asyncImport c else defaultAsyncImport c) \<rparr>) ]"
  by (simp add: emit_def Let_def LAZY_PREFIX_def)

lemma prefixComponent_other_fields:
  "filePath (prefixComponent p c) = filePath c"
  "shortPath (prefixComponent p c) = shortPath c"
  "chunkName (prefixComponent p c) = chunkName c"
  "export (prefixComponent p c) = export c"
  "import (prefixComponent p c) = import c"
  "asyncImport (prefixComponent p c) = asyncImport c"
  "async (prefixComponent p c) = async c"
  "Component.global (prefixComponent p c) = Component.global c"
  by (simp_all add: prefixComponent_def Let_def)

lemma prefixComponent_lazy_names:
  "pascalName (prefixComponent (Some ''lazy'') c)
     = (if startsWith (pascalName c) ''lazy'' then pascalName c else ''Lazy'' @ pascalName c)"
  "kebabName (prefixComponent (Some ''lazy'') c)
     = (if startsWith (kebabName c) ''lazy'' then kebabName c else ''lazy-'' @ kebabName c)"
  by (simp_all add: prefixComponent_def Let_def pascalCase_lazy kebabCase_lazy)

subsection \<open>Directory order and nested directories\<close>









text \<open>
  The test of line 56 is \<open>filePath.startsWith(d)\<close>, on strings.  After \<open>/src/a/bc\<close> has been
  scanned, every file of \<open>/src/a/bcd\<close> passes it, although \<open>/src/a/bcd\<close> is not inside
  \<open>/src/a/bc\<close>: \<open>/src/a/bcd/X.vue\<close> is skipped by its own directory and by \<open>/src/a\<close>, and is
  not in the result.  Such a file is claimed when it is reached, so the statement above
  says nothing about it.
\<close>

lemma sibling_dir_with_prefix_path_skipped:
  "map ScanDir.path (dirsAfter (scanComponents (posix ''/'') siblingFiles
         [plainDir ''/src/a/bc'', plainDir ''/src/a/bcd'', plainDir ''/src/a''] ''/src''))
       = [''/src/a/bc'', ''/src/a/bcd'', ''/src/a'']
   \<and> ''X.vue'' \<in> set (globFiles siblingFiles (plainDir ''/src/a/bcd''))
   \<and> ''bcd/X.vue'' \<in> set (globFiles siblingFiles (plainDir ''/src/a''))
   \<and> map filePath (returned (scanComponents (posix ''/'') siblingFiles
         [plainDir ''/src/a/bc'', plainDir ''/src/a/bcd'', plainDir ''/src/a''] ''/src''))
       = [''/src/a/bc/Y.vue'', ''/src/a/bc/Y.vue'']
   \<and> ''/src/a/bcd/X.vue''
       \<notin> set (map filePath (returned (scanComponents (posix ''/'') siblingFiles
         [plainDir ''/src/a/bc'', plainDir ''/src/a/bcd'', plainDir ''/src/a''] ''/src'')))"
  by code_simp

subsection \<open>The \<open>dirs\<close> argument\<close>

text \<open>
  Claim C10.  \<open>scanComponents\<close> sorts the caller's \<open>dirs\<close> array in place: after the call
  the array holds the same ScanDirs, each as it was, in non-increasing path depth, which
  need not be the order the caller gave; \<open>[/src/components, /src/components/base]\<close> comes
  back as \<open>[/src/components/base, /src/components]\<close>.
\<close>

theorem dirs_sorted_in_place:
  "dirsAfter (scanComponents P globby dirs srcDir) = arraySort sortDirsByPathLength dirs
   \<and> mset (dirsAfter (scanComponents P globby dirs srcDir)) = mset dirs
   \<and> sorted_wrt (\<lambda>a b. pathDepth (ScanDir.path b) \<le> pathDepth (ScanDir.path a))
        (dirsAfter (scanComponents P globby dirs srcDir))
   \<and> dirsAfter (scanComponents P globby
        [plainDir ''/src/components'', plainDir ''/src/components/base''] srcDir)
       = [plainDir ''/src/components/base'', plainDir ''/src/components'']"
proof -
  have s: "dirsAfter (scanComponents P globby ds srcDir) = arraySort sortDirsByPathLength ds" for ds
    by (simp add: scanComponents_def Let_def)
  have "arraySort sortDirsByPathLength [plainDir ''/src/components'', plainDir ''/src/components/base'']
       = [plainDir ''/src/components/base'', plainDir ''/src/components'']"
    by (simp add: arraySort_def sortDirsByPathLength_def plainDir_def pathDepth_def
        chr_slash_def chr_backslash_def)
  then show ?thesis
    by (simp add: s mset_arraySort sorted_arraySort_depth)
qed

subsection \<open>\<open>prefixComponent\<close> on a name that has the prefix already\<close>

text \<open>
  Claim C6.  With the prefix \<open>app\<close>, \<open>Header\<close> becomes \<open>AppHeader\<close> and \<open>header\<close> becomes
  \<open>app-header\<close>.  The name \<open>AppBar\<close> does not come back unchanged: \<open>startsWith\<close> compares
  it with \<open>app\<close> as written, the comparison fails on the capital, and \<open>App\<close> is put in
  front a second time, while the kebab name \<open>app-bar\<close> of the same Component is left as
  it is.
\<close>

theorem prefix_check_is_case_sensitive:
  "pascalName (prefixComponent (Some ''app'') (namedComponent ''Header'' ''header'')) = ''AppHeader''
   \<and> kebabName (prefixComponent (Some ''app'') (namedComponent ''Header'' ''header'')) = ''app-header''
   \<and> pascalName (prefixComponent (Some ''app'') (namedComponent ''AppBar'' ''app-bar'')) = ''AppAppBar''
   \<and> kebabName (prefixComponent (Some ''app'') (namedComponent ''AppBar'' ''app-bar'')) = ''app-bar''
   \<and> map pascalName (returned (scanComponents (posix ''/'') (filesEverywhere [''AppBar.vue''])
        [prefixedDir ''/src/components'' ''app''] ''/src'')) = [''AppAppBar'', ''LazyAppAppBar'']
   \<and> map kebabName (returned (scanComponents (posix ''/'') (filesEverywhere [''AppBar.vue''])
        [prefixedDir ''/src/components'' ''app''] ''/src'')) = [''app-bar'', ''lazy-app-bar'']"
  by code_simp

subsection \<open>\<open>matcher\<close>\<close>

lemma matcher_foldl:
  "foldl (\<lambda>matches tag. (case matchTag cs tag of None \<Rightarrow> matches | Some m \<Rightarrow> matches @ [m])) acc tags
     = acc @ concat (map (\<lambda>tag. case matchTag cs tag of None \<Rightarrow> [] | Some m \<Rightarrow> [m]) tags)"
  by (induction tags arbitrary: acc) (auto split: option.splits)

lemma length_concat_option:
  "length (concat (map (\<lambda>tag. case g tag of None \<Rightarrow> [] | Some m \<Rightarrow> [m]) tags)) \<le> length tags"
  by (induction tags) (auto split: option.splits)

text \<open>
  Claim C8.  \<open>matcher(tags, components)\<close> is, tag by tag in the order of \<open>tags\<close>, the first
  Component whose \<open>pascalName\<close> or \<open>kebabName\<close> is the tag, and nothing for a tag that no
  Component has; so it is no longer than \<open>tags\<close>.  When \<open>Header\<close> has a match and
  \<open>missing-tag\<close> has none, \<open>matcher(["Header", "missing-tag"], components)\<close> is that one
  match.
\<close>

theorem matcher_first_match_per_tag:
  "matcher tags cs =
     concat (map (\<lambda>tag. case find (\<lambda>c. pascalName c = tag \<or> kebabName c = tag) cs of
                          None \<Rightarrow> [] | Some m \<Rightarrow> [m]) tags)
   \<and> length (matcher tags cs) \<le> length tags
   \<and> (find (\<lambda>c. pascalName c = ''Header'' \<or> kebabName c = ''Header'') cs = Some h
        \<and> find (\<lambda>c. pascalName c = ''missing-tag'' \<or> kebabName c = ''missing-tag'') cs = None
      \<longrightarrow> matcher [''Header'', ''missing-tag''] cs = [h])"
proof -
  have eq: "matchTag cs = (\<lambda>tag. find (\<lambda>c. pascalName c = tag \<or> kebabName c = tag) cs)"
    by (rule ext) (simp add: matchTag_def eq_commute)
  have m: "matcher ts cs = concat (map (\<lambda>tag. case matchTag cs tag of None \<Rightarrow> [] | Some m \<Rightarrow> [m]) ts)"
    for ts
    by (simp add: matcher_def matcher_foldl)
  have "length (matcher tags cs) \<le> length tags"
    unfolding m by (rule length_concat_option)
  moreover have "matcher [''Header'', ''missing-tag''] cs = [h]"
    if "find (\<lambda>c. pascalName c = ''Header'' \<or> kebabName c = ''Header'') cs = Some h"
      and "find (\<lambda>c. pascalName c = ''missing-tag'' \<or> kebabName c = ''missing-tag'') cs = None"
    using that by (simp add: m eq)
  ultimately show ?thesis
    using m [of tags] by (simp add: eq)
qed

theorem matcher_witness:
  "find (\<lambda>c. pascalName c = ''Header'' \<or> kebabName c = ''Header'')
     [namedComponent ''Footer'' ''footer'', namedComponent ''Header'' ''header'',
      namedComponent ''Header'' ''site-header'']
     = Some (namedComponent ''Header'' ''header'')
   \<and> find (\<lambda>c. pascalName c = ''missing-tag'' \<or> kebabName c = ''missing-tag'')
     [namedComponent ''Footer'' ''footer'', namedComponent ''Header'' ''header'',
      namedComponent ''Header'' ''site-header''] = None
   \<and> matcher [''Header'', ''missing-tag'']
       [namedComponent ''Footer'' ''footer'', namedComponent ''Header'' ''header'',
        namedComponent ''Header'' ''site-header'']
     = [namedComponent ''Header'' ''header'']"
proof -
  let ?cs = "[namedComponent ''Footer'' ''footer'', namedComponent ''Header'' ''header'',
      namedComponent ''Header'' ''site-header'']"
  have h1: "find (\<lambda>c. pascalName c = ''Header'' \<or> kebabName c = ''Header'') ?cs
     = Some (namedComponent ''Header'' ''header'')"
    by (simp add: namedComponent_def)
  have h2: "find (\<lambda>c. pascalName c = ''missing-tag'' \<or> kebabName c = ''missing-tag'') ?cs = None"
    by (simp add: namedComponent_def)
  show ?thesis
    using matcher_first_match_per_tag [of "[''Header'', ''missing-tag'']" ?cs "namedComponent ''Header'' ''header''"]
      h1 h2 by blast
qed

subsection \<open>What the loops keep\<close>




subsection \<open>Uniqueness of names\<close>









subsection \<open>Two files of one ScanDir with the same \<open>pascalName\<close>\<close>

text \<open>
  Claim C5.  In the ScanDir \<open>/src/components\<close> the files \<open>base/Foo.vue\<close> and
  \<open>base/foo/index.vue\<close> both resolve to the \<open>pascalName\<close> \<open>BaseFoo\<close>.  The check of line 72
  looks the name up as lines 62 to 70 leave it, \<open>Base/Foo\<close> for the first file (with the
  separator) and \<open>BaseFoo\<close> for the second, finds no entry, and both files are emitted
  under the same \<open>pascalName\<close> and \<open>kebabName\<close>; no warning is written.
\<close>

theorem same_pascalName_in_one_dir_not_detected:
  "map fst (snd (scanFiles (posix ''/'') ''/src'' (plainDir ''/src/components'') (initialState, [])
          [''base/Foo.vue'', ''base/foo/index.vue''])) = [''Base/Foo'', ''BaseFoo'']
   \<and> map pascalName
       (returned (scanComponents (posix ''/'') (filesEverywhere [''base/Foo.vue'', ''base/foo/index.vue''])
          [plainDir ''/src/components''] ''/src''))
     = [''BaseFoo'', ''LazyBaseFoo'', ''BaseFoo'', ''LazyBaseFoo'']
   \<and> map kebabName
       (returned (scanComponents (posix ''/'') (filesEverywhere [''base/Foo.vue'', ''base/foo/index.vue''])
          [plainDir ''/src/components''] ''/src''))
     = [''base-foo'', ''lazy-base-foo'', ''base-foo'', ''lazy-base-foo'']
   \<and> map filePath
       (returned (scanComponents (posix ''/'') (filesEverywhere [''base/Foo.vue'', ''base/foo/index.vue''])
          [plainDir ''/src/components''] ''/src''))
     = [''/src/components/base/Foo.vue'', ''/src/components/base/Foo.vue'',
        ''/src/components/base/foo/index.vue'', ''/src/components/base/foo/index.vue'']
   \<and> warned (scanComponents (posix ''/'') (filesEverywhere [''base/Foo.vue'', ''base/foo/index.vue''])
          [plainDir ''/src/components''] ''/src'') = []"
  by code_simp

subsection \<open>The naming rule\<close>



subsection \<open>An \<open>index\<close> file in the root of a ScanDir\<close>

text \<open>
  Claim C9, as amended.  Let a file be named \<open>index\<close> and lie directly in the root of its
  ScanDir, so that the path from the root to the file's directory is empty.  If the
  ScanDir sets no prefix (or the empty one) and no \<open>extendComponent\<close>, and the file is
  accepted, then the eager Component appended for it has the empty \<open>pascalName\<close> and the
  empty \<open>kebabName\<close>, and the lazy one has \<open>Lazy\<close> and \<open>lazy-\<close>.
\<close>

theorem index_in_root_has_empty_names:
  assumes "basename P (join P (ScanDir.path d) f) (extname P (join P (ScanDir.path d) f)) = ''index''"
    and "relative P (ScanDir.path d) (dirname P (join P (ScanDir.path d) f)) = []"
    and "prefix d = None \<or> prefix d = Some []"
    and "extendComponent d = None"
    and "\<not> claimed st (join P (ScanDir.path d) f)"
    and "map_of rn [] = None"
  shows "\<exists>e l. components (fst (scanFile P srcDir d (st, rn) f)) = components st @ [e, l]
           \<and> pascalName e = [] \<and> kebabName e = []
           \<and> pascalName l = ''Lazy'' \<and> kebabName l = ''lazy-''"
proof -
  let ?fp = "join P (ScanDir.path d) f"
  have name: "resolveComponentName P (ScanDir.path d) ?fp = []"
    using assms(1,2) by (simp add: resolveComponentName_def Let_def pascalCase_index pascalCase_Nil)
  have draft: "pascalName (draftComponent P srcDir d [] ?fp) = []"
      "kebabName (draftComponent P srcDir d [] ?fp) = []"
    using assms(3)
    by (auto simp: draftComponent_def Let_def prefixComponent_def startsWith_def
        pascalCase_Nil kebabCase_Nil)
  have ext: "applyExtendComponent d c = c" for c
    using assms(4) by (simp add: applyExtendComponent_def)
  have step: "components (fst (scanFile P srcDir d (st, rn) f))
      = components st @ fileComponents P srcDir d [] ?fp"
    using scanFile_accept [OF assms(5), of rn srcDir] assms(6) by (simp add: name)
  let ?c = "draftComponent P srcDir d [] ?fp"
  let ?e = "?c \<lparr> import := (if import ?c \<noteq> [] then import ?c else defaultImport ?c) \<rparr>"
  let ?l = "prefixComponent (Some ''lazy'')
         (?c \<lparr> async := Some True,
              import := (if asyncImport ?c \<noteq> [] then asyncImport ?c else defaultAsyncImport ?c) \<rparr>)"
  have two: "fileComponents P srcDir d [] ?fp = [?e, ?l]"
    by (simp add: fileComponents_def ext emit_two)
  show ?thesis
  proof (intro exI conjI)
    show "components (fst (scanFile P srcDir d (st, rn) f)) = components st @ [?e, ?l]"
      using step two by simp
    show "pascalName ?e = []" and "kebabName ?e = []"
      by (simp_all add: draft)
    show "pascalName ?l = ''Lazy''" and "kebabName ?l = ''lazy-''"
      by (simp_all add: prefixComponent_lazy_names draft startsWith_def)
  qed
qed

text \<open>
  Without the condition on the prefix the claim fails: under the prefix \<open>app\<close> the names
  are \<open>App\<close> and \<open>app-\<close>.
\<close>

theorem index_in_root_with_prefix_counterexample:
  "map pascalName
     (returned (scanComponents (posix ''/'') (filesEverywhere [''index.vue''])
        [prefixedDir ''/src/components'' ''app''] ''/src''))
     = [''App'', ''LazyApp'']
   \<and> map kebabName
     (returned (scanComponents (posix ''/'') (filesEverywhere [''index.vue''])
        [prefixedDir ''/src/components'' ''app''] ''/src''))
     = [''app-'', ''lazy-app-'']
   \<and> pascalName (hd
     (returned (scanComponents (posix ''/'') (filesEverywhere [''index.vue''])
        [prefixedDir ''/src/components'' ''app''] ''/src''))) \<noteq> []"
  by code_simp

text \<open>An instance of the amended claim: \<open>/src/components/index.vue\<close>.\<close>

theorem index_in_root_witness:
  "basename (posix ''/'') (join (posix ''/'') (ScanDir.path (plainDir ''/src/components'')) ''index.vue'')
       (extname (posix ''/'') (join (posix ''/'') (ScanDir.path (plainDir ''/src/components'')) ''index.vue''))
     = ''index''
   \<and> relative (posix ''/'') (ScanDir.path (plainDir ''/src/components''))
       (dirname (posix ''/'') (join (posix ''/'') (ScanDir.path (plainDir ''/src/components'')) ''index.vue''))
     = []
   \<and> prefix (plainDir ''/src/components'') = None
   \<and> extendComponent (plainDir ''/src/components'') = None
   \<and> \<not> claimed initialState (join (posix ''/'') (ScanDir.path (plainDir ''/src/components'')) ''index.vue'')
   \<and> (\<exists>e l. components (fst (scanFile (posix ''/'') ''/src'' (plainDir ''/src/components'')
                  (initialState, []) ''index.vue'')) = components initialState @ [e, l]
           \<and> pascalName e = [] \<and> kebabName e = []
           \<and> pascalName l = ''Lazy'' \<and> kebabName l = ''lazy-'')
   \<and> map (\<lambda>c. (pascalName c, kebabName c))
       (returned (scanComponents (posix ''/'') (filesEverywhere [''index.vue''])
          [plainDir ''/src/components''] ''/src''))
     = [([], []), (''Lazy'', ''lazy-'')]"
proof -
  let ?P = "posix ''/''" and ?d = "plainDir ''/src/components''"
  have h1: "basename ?P (join ?P (ScanDir.path ?d) ''index.vue'')
       (extname ?P (join ?P (ScanDir.path ?d) ''index.vue'')) = ''index''"
    by code_simp
  have h2: "relative ?P (ScanDir.path ?d) (dirname ?P (join ?P (ScanDir.path ?d) ''index.vue'')) = []"
    by code_simp
  have h3: "prefix ?d = None" and h4: "extendComponent ?d = None"
    by (simp_all add: plainDir_def)
  have h5: "\<not> claimed initialState (join ?P (ScanDir.path ?d) ''index.vue'')"
    by code_simp
  have h6: "map_of ([] :: ResolvedNames) [] = None"
    by simp
  have run: "map (\<lambda>c. (pascalName c, kebabName c))
       (returned (scanComponents ?P (filesEverywhere [''index.vue'']) [?d] ''/src''))
     = [([], []), (''Lazy'', ''lazy-'')]"
    by code_simp
  show ?thesis
    using index_in_root_has_empty_names [OF h1 h2 disjI1 [OF h3] h4 h5 h6, of "''/src''"]
    by (intro conjI h1 h2 h3 h4 h5 run)
qed

subsection \<open>The default \<open>asyncImport\<close> snippet\<close>

text \<open>Every Component of the result was pushed by lines 112 to 121 for some \<open>_c\<close>.\<close>

lemma emitted_scanFile:
  assumes "\<exists>cs. components st = concat (map emit cs)"
  shows "\<exists>cs. components (fst (scanFile P srcDir d (st, rn) f)) = concat (map emit cs)"
proof -
  from assms obtain cs where cs: "components st = concat (map emit cs)" by blast
  show ?thesis
  proof (cases rule: scanFile_cases [where st=st and P=P and d=d and f=f and rn=rn and srcDir=srcDir])
    case skip
    then show ?thesis using cs by auto
  next
    case (collision other)
    then show ?thesis using cs by auto
  next
    case accept
    let ?c = "applyExtendComponent d (draftComponent P srcDir d
        (resolveComponentName P (ScanDir.path d) (join P (ScanDir.path d) f)) (join P (ScanDir.path d) f))"
    have "components (fst (scanFile P srcDir d (st, rn) f)) = concat (map emit (cs @ [?c]))"
      using accept(3) cs by (simp add: fileComponents_def)
    then show ?thesis by blast
  qed
qed

lemma emitted_scanFiles:
  "\<exists>cs. components (fst sr) = concat (map emit cs) \<Longrightarrow>
   \<exists>cs. components (fst (scanFiles P srcDir d sr files)) = concat (map emit cs)"
proof (induction files arbitrary: sr)
  case Nil
  then show ?case by (simp add: scanFiles_Nil)
next
  case (Cons g gs)
  have "\<exists>cs. components (fst (scanFile P srcDir d sr g)) = concat (map emit cs)"
    using emitted_scanFile [of "fst sr" P srcDir d "snd sr" g] Cons.prems by simp
  then show ?case
    unfolding scanFiles_Cons by (rule Cons.IH)
qed

lemma emitted_scanDir:
  "\<exists>cs. components st = concat (map emit cs) \<Longrightarrow>
   \<exists>cs. components (scanDir P globby srcDir st d) = concat (map emit cs)"
  using emitted_scanFiles [of "(st, [])" P srcDir d "globFiles globby d"]
  by (simp add: scanDir_def Let_def)

lemma emitted_scanDirs:
  "\<exists>cs. components st = concat (map emit cs) \<Longrightarrow>
   \<exists>cs. components (scanDirs P globby srcDir st ds) = concat (map emit cs)"
proof (induction ds arbitrary: st)
  case Nil
  then show ?case by (simp add: scanDirs_Nil)
next
  case (Cons e es)
  show ?case
    unfolding scanDirs_Cons by (rule Cons.IH) (rule emitted_scanDir [OF Cons.prems])
qed

lemma emitted_scanComponents:
  "\<exists>cs. returned (scanComponents P globby dirs srcDir) = concat (map emit cs)"
proof -
  have "\<exists>cs. components initialState = concat (map emit cs)"
    by (intro exI [of _ "[]"]) (simp add: initialState_def)
  then show ?thesis
    using emitted_scanDirs [of initialState P globby srcDir "arraySort sortDirsByPathLength dirs"]
    by (simp add: scanComponents_def Let_def)
qed

text \<open>
  Claim C7, as amended.  The result consists of the pairs pushed for the Components \<open>_c\<close>
  of the accepted files.  In each pair the \<open>asyncImport\<close> field of both Components is the
  one of \<open>_c\<close>, which is empty unless a hook set it (a ScanDir without hook leaves it
  empty).  The default snippet is put in the \<open>import\<close> field of the lazy Component when
  \<open>_c\<close> has no \<open>asyncImport\<close> of its own: a function without arguments that imports
  \<open>filePath\<close>, with \<open>chunkName\<close> as the \<open>webpackChunkName\<close>, and resolves to the export or
  else to the module.
\<close>

theorem default_async_snippet_goes_to_import:
  "(\<exists>cs. returned (scanComponents P globby dirs srcDir) = concat (map emit cs))
   \<and> (\<exists>e l. emit c = [e, l]
         \<and> asyncImport e = asyncImport c \<and> asyncImport l = asyncImport c
         \<and> filePath l = filePath c \<and> chunkName l = chunkName c \<and> export l = export c
         \<and> import l =
             (if asyncImport c \<noteq> [] then asyncImport c
              else ''function () { return import('' @ [chr_apos] @ filePath c @ [chr_apos]
                @ '' /* webpackChunkName: '' @ [chr_dquote] @ chunkName c @ [chr_dquote]
                @ '' */).then(function(m) { return m['' @ [chr_apos] @ export c @ [chr_apos]
                @ ''] || m }) }''))
   \<and> (extendComponent d = None
        \<longrightarrow> asyncImport (applyExtendComponent d (draftComponent P srcDir d n fp)) = [])"
proof -
  let ?e = "c \<lparr> import := (if import c \<noteq> [] then import c else defaultImport c) \<rparr>"
  let ?l = "prefixComponent (Some ''lazy'')
         (c \<lparr> async := Some True,
              import := (if asyncImport c \<noteq> [] then asyncImport c else defaultAsyncImport c) \<rparr>)"
  have pair: "\<exists>e l. emit c = [e, l]
         \<and> asyncImport e = asyncImport c \<and> asyncImport l = asyncImport c
         \<and> filePath l = filePath c \<and> chunkName l = chunkName c \<and> export l = export c
         \<and> import l =
             (if asyncImport c \<noteq> [] then asyncImport c
              else ''function () { return import('' @ [chr_apos] @ filePath c @ [chr_apos]
                @ '' /* webpackChunkName: '' @ [chr_dquote] @ chunkName c @ [chr_dquote]
                @ '' */).then(function(m) { return m['' @ [chr_apos] @ export c @ [chr_apos]
                @ ''] || m }) }'')"
  proof (intro exI conjI)
    show "emit c = [?e, ?l]" by (rule emit_two)
    show "asyncImport ?e = asyncImport c" by simp
    show "asyncImport ?l = asyncImport c" "filePath ?l = filePath c" "chunkName ?l = chunkName c"
      "export ?l = export c"
      by (simp_all add: prefixComponent_other_fields)
    show "import ?l =
             (if asyncImport c \<noteq> [] then asyncImport c
              else ''function () { return import('' @ [chr_apos] @ filePath c @ [chr_apos]
                @ '' /* webpackChunkName: '' @ [chr_dquote] @ chunkName c @ [chr_dquote]
                @ '' */).then(function(m) { return m['' @ [chr_apos] @ export c @ [chr_apos]
                @ ''] || m }) }'')"
      by (simp add: prefixComponent_other_fields defaultAsyncImport_def)
  qed
  have nohook: "asyncImport (applyExtendComponent d (draftComponent P srcDir d n fp)) = []"
    if "extendComponent d = None"
    using that
    by (simp add: applyExtendComponent_def draftComponent_def Let_def prefixComponent_other_fields)
  show ?thesis
    by (intro conjI impI emitted_scanComponents pair nohook)
qed

text \<open>
  The claim as stated fails: for \<open>/src/components/Foo.vue\<close>, with no hook, the
  \<open>asyncImport\<close> field of both Components is empty; the snippet is the \<open>import\<close> of the
  second.
\<close>

theorem async_import_field_counterexample:
  "map asyncImport (returned (scanComponents (posix ''/'') (filesEverywhere [''Foo.vue''])
        [plainDir ''/src/components''] ''/src'')) = [[], []]
   \<and> map import (returned (scanComponents (posix ''/'') (filesEverywhere [''Foo.vue''])
        [plainDir ''/src/components''] ''/src''))
     = [''require('' @ [chr_apos] @ ''/src/components/Foo.vue'' @ [chr_apos] @ '').default'',
        ''function () { return import('' @ [chr_apos] @ ''/src/components/Foo.vue'' @ [chr_apos]
          @ '' /* webpackChunkName: '' @ [chr_dquote] @ ''components/Foo'' @ [chr_dquote]
          @ '' */).then(function(m) { return m['' @ [chr_apos] @ ''default'' @ [chr_apos]
          @ ''] || m }) }'']
   \<and> asyncImport (hd (returned (scanComponents (posix ''/'') (filesEverywhere [''Foo.vue''])
        [plainDir ''/src/components''] ''/src'')))
     \<noteq> defaultAsyncImport (hd (returned (scanComponents (posix ''/'')
        (filesEverywhere [''Foo.vue'']) [plainDir ''/src/components''] ''/src'')))
   \<and> asyncImport (last (returned (scanComponents (posix ''/'') (filesEverywhere [''Foo.vue''])
        [plainDir ''/src/components''] ''/src'')))
     \<noteq> defaultAsyncImport (last (returned (scanComponents (posix ''/'')
        (filesEverywhere [''Foo.vue'']) [plainDir ''/src/components''] ''/src'')))"
  by code_simp

text \<open>An instance of the amended claim, for the same file.\<close>

theorem default_async_snippet_witness:
  "extendComponent (plainDir ''/src/components'') = None
   \<and> asyncImport (applyExtendComponent (plainDir ''/src/components'')
        (draftComponent (posix ''/'') ''/src'' (plainDir ''/src/components'') ''Foo''
           ''/src/components/Foo.vue'')) = []
   \<and> import (last (emit (applyExtendComponent (plainDir ''/src/components'')
        (draftComponent (posix ''/'') ''/src'' (plainDir ''/src/components'') ''Foo''
           ''/src/components/Foo.vue''))))
     = ''function () { return import('' @ [chr_apos] @ ''/src/components/Foo.vue'' @ [chr_apos]
          @ '' /* webpackChunkName: '' @ [chr_dquote] @ ''components/Foo'' @ [chr_dquote]
          @ '' */).then(function(m) { return m['' @ [chr_apos] @ ''default'' @ [chr_apos]
          @ ''] || m }) }''"
proof -
  let ?d = "plainDir ''/src/components''"
  let ?c = "applyExtendComponent ?d
        (draftComponent (posix ''/'') ''/src'' ?d ''Foo'' ''/src/components/Foo.vue'')"
  have h: "extendComponent ?d = None" by (simp add: plainDir_def)
  note r = default_async_snippet_goes_to_import [of "posix ''/''" "filesEverywhere [''Foo.vue'']"
      "[?d]" "''/src''" ?c ?d "''Foo''" "''/src/components/Foo.vue''"]
  have a: "asyncImport ?c = []"
    using r [THEN conjunct2, THEN conjunct2] h by simp
  have f: "filePath ?c = ''/src/components/Foo.vue''" "chunkName ?c = ''components/Foo''"
    "export ?c = ''default''"
    by code_simp+
  from r [THEN conjunct2, THEN conjunct1] obtain e l where
    "emit ?c = [e, l]" and
    "import l = (if asyncImport ?c \<noteq> [] then asyncImport ?c
              else ''function () { return import('' @ [chr_apos] @ filePath ?c @ [chr_apos]
                @ '' /* webpackChunkName: '' @ [chr_dquote] @ chunkName ?c @ [chr_dquote]
                @ '' */).then(function(m) { return m['' @ [chr_apos] @ export ?c @ [chr_apos]
                @ ''] || m }) }'')"
    by blast
  then have "import (last (emit ?c))
     = ''function () { return import('' @ [chr_apos] @ ''/src/components/Foo.vue'' @ [chr_apos]
          @ '' /* webpackChunkName: '' @ [chr_dquote] @ ''components/Foo'' @ [chr_dquote]
          @ '' */).then(function(m) { return m['' @ [chr_apos] @ ''default'' @ [chr_apos]
          @ ''] || m }) }''"
    by (simp add: a f)
  with h a show ?thesis by (intro conjI)
qed

subsection \<open>The lazy variant of a Component whose name begins with the marker\<close>

text \<open>
  Claim C3.  For \<open>LazyImage.vue\<close> the two Components are pushed, the second with \<open>async\<close>
  set, but the names of the second do not both carry the marker in front of the names of
  the first: \<open>pascalName\<close> becomes \<open>LazyLazyImage\<close>, while \<open>kebabName\<close> stays \<open>lazy-image\<close>,
  the kebab name of the eager Component.  The two lines of \<open>prefixComponent\<close> compare each
  name with \<open>lazy\<close> as written: the comparison succeeds on the kebab name and fails on
  the capital of the Pascal name.
\<close>

theorem lazy_marker_not_prepended_to_kebab_name:
  "map pascalName
     (returned (scanComponents (posix ''/'') (filesEverywhere [''LazyImage.vue''])
        [plainDir ''/src/components''] ''/src''))
     = [''LazyImage'', ''LazyLazyImage'']
   \<and> map kebabName
     (returned (scanComponents (posix ''/'') (filesEverywhere [''LazyImage.vue''])
        [plainDir ''/src/components''] ''/src''))
     = [''lazy-image'', ''lazy-image'']
   \<and> map async
     (returned (scanComponents (posix ''/'') (filesEverywhere [''LazyImage.vue''])
        [plainDir ''/src/components''] ''/src''))
     = [None, Some True]
   \<and> kebabName (last
     (returned (scanComponents (posix ''/'') (filesEverywhere [''LazyImage.vue''])
        [plainDir ''/src/components''] ''/src'')))
     \<noteq> ''lazy-'' @ kebabName (hd
     (returned (scanComponents (posix ''/'') (filesEverywhere [''LazyImage.vue''])
        [plainDir ''/src/components''] ''/src'')))"
  by code_simp

end
